theory Spec2Isabelle
  imports Main "HOL-Library.Sublist"
begin

section \<open>Configuration (check\_mongo.py, lines 6--9)\<close>

definition MONGO_URI :: string where
  "MONGO_URI = ''mongodb://localhost:27017''"

definition DB_NAME :: string where
  "DB_NAME = ''clever_record_keeper''"

definition COLLECTION_NAME :: string where
  "COLLECTION_NAME = ''students''"

definition SAMPLE_LIMIT :: nat where
  "SAMPLE_LIMIT = 5"

section \<open>Strings\<close>

text \<open>
  Python's \<open>str\<close> of a non-negative integer, as the f-strings of lines 26, 30 and 34
  format \<open>count\<close>, \<open>SAMPLE_LIMIT\<close> and the loop index: decimal digits, most
  significant first, no leading zero.
\<close>

definition digit_char :: "nat \<Rightarrow> char" where
  "digit_char d = ''0123456789'' ! d"

fun str_nat :: "nat \<Rightarrow> string" where
  "str_nat n = (if n < 10 then [digit_char n] else str_nat (n div 10) @ [digit_char (n mod 10)])"

declare str_nat.simps [simp del]

definition newline :: char where
  "newline = CHR 0x0A"

text \<open>Python's \<open>s in t\<close> on strings: \<open>s\<close> occurs in \<open>t\<close> as a contiguous run.\<close>

fun contains :: "string \<Rightarrow> string \<Rightarrow> bool" where
  "contains s [] = (s = [])"
| "contains s (c # cs) = (prefix s (c # cs) \<or> contains s cs)"

section \<open>The outside world: driver, server and standard streams\<close>

text \<open>
  An exception value: the name of its class and the text \<open>str(e)\<close> that the handlers
  of lines 17 and 38 format. Both handlers are \<open>except Exception\<close>; every error the
  driver raises derives from \<open>Exception\<close>, so the class plays no part in which handler
  runs.
\<close>

datatype exn = Exn (exn_class: string) (exn_str: string)

text \<open>
  The calls the script makes into the driver and into \<open>bson.json_util\<close>, with the
  arguments it passes.
\<close>

datatype request =
    Call_MongoClient string nat
  | Call_ping
  | Call_count_documents string string
  | Call_find_limit string string nat
  | Call_cursor_next
  | Call_dumps nat
  | Call_close

datatype reply = Returned | Raised exn

text \<open>
  What one run leaves behind: the text of every \<open>print\<close> to standard output and to
  standard error (one list element per \<open>print\<close> call; the stream is each element
  followed by a line terminator), and the driver calls in the order they were made, each
  with whether it returned or raised.
\<close>

record world =
  stdout :: "string list"
  stderr :: "string list"
  trace :: "(request \<times> reply) list"

definition world0 :: world where
  "world0 = \<lparr>stdout = [], stderr = [], trace = []\<rparr>"

definition print :: "string \<Rightarrow> world \<Rightarrow> world" where
  "print s w = w\<lparr>stdout := stdout w @ [s]\<rparr>"

definition eprint :: "string \<Rightarrow> world \<Rightarrow> world" where
  "eprint s w = w\<lparr>stderr := stderr w @ [s]\<rparr>"

text \<open>
  The behaviour of the server and of the libraries during one run, which the script
  cannot choose: which call raises (constructing the client, the ping, the count, building
  the cursor, the \<open>i\<close>-th advance of the cursor counted from 1), the documents the
  collection holds in the server's natural order, and \<open>bson.json_util.dumps\<close>, which
  renders a document with a given indentation or raises.
\<close>

record 'doc env =
  connect_fault :: "exn option"
  ping_fault :: "exn option"
  count_fault :: "exn option"
  collection :: "'doc list"
  find_fault :: "exn option"
  next_fault :: "nat \<Rightarrow> exn option"
  dumps :: "'doc \<Rightarrow> nat \<Rightarrow> exn + string"

text \<open>One driver call: it is recorded, and it raises when the world says so.\<close>

definition call :: "request \<Rightarrow> exn option \<Rightarrow> world \<Rightarrow> exn option \<times> world" where
  "call r fault w =
     (fault, w\<lparr>trace := trace w @ [(r, case fault of None \<Rightarrow> Returned | Some e \<Rightarrow> Raised e)]\<rparr>)"

text \<open>
  Modelled from the spec: the driver's \<open>count_documents\<close> and \<open>find(...).limit(n)\<close>
  are not code of this repository. Section 6 of the specification gives their contract: a
  count over the collection with an empty filter, and a find with an empty filter and a
  result-count limit that returns documents in server-determined order, "bounded by the limit
  or by exhaustion of the collection, whichever is smaller". Both read the same collection:
  no other client writes to it between the two requests.
\<close>

definition count_documents :: "'doc env \<Rightarrow> nat" where
  "count_documents env = length (collection env)"

definition find_limit :: "'doc env \<Rightarrow> nat \<Rightarrow> 'doc list" where
  "find_limit env n = take n (collection env)"

section \<open>The script (check\_mongo.py, \<open>main\<close>)\<close>

text \<open>
  Lines 20--21: the collection handle is the pair of the two configured names. The two
  subscripts build handles inside the driver and send nothing to the server; they are taken
  here as returning.
\<close>

definition col :: "string \<times> string" where
  "col = (DB_NAME, COLLECTION_NAME)"

text \<open>Lines 13--15, the body of the first \<open>try\<close>.\<close>

definition connect :: "'doc env \<Rightarrow> world \<Rightarrow> exn option \<times> world" where
  "connect env w =
     (case call (Call_MongoClient MONGO_URI 5000) (connect_fault env) w of
        (Some e, w1) \<Rightarrow> (Some e, w1)
      | (None, w1) \<Rightarrow> call Call_ping (ping_fault env) w1)"

text \<open>Line 34.\<close>

definition label :: "nat \<Rightarrow> string" where
  "label i = ''--- Document '' @ str_nat i @ '' ---''"

text \<open>
  Lines 32--36: the loop over the cursor, \<open>i\<close> the index \<open>enumerate\<close> gives the next
  document. Each round advances the cursor first; the label is already printed when
  \<open>dumps\<close> is called.
\<close>

fun sample_loop :: "'doc env \<Rightarrow> nat \<Rightarrow> 'doc list \<Rightarrow> world \<Rightarrow> exn option \<times> world" where
  "sample_loop env i [] w = call Call_cursor_next (next_fault env i) w"
| "sample_loop env i (doc # docs) w =
     (case call Call_cursor_next (next_fault env i) w of
        (Some e, w1) \<Rightarrow> (Some e, w1)
      | (None, w1) \<Rightarrow>
          (let w2 = print (label i) w1 in
           case dumps env doc 2 of
             Inl e \<Rightarrow> call (Call_dumps 2) (Some e) w2
           | Inr s \<Rightarrow>
               sample_loop env (i + 1) docs
                 (print [] (print s (snd (call (Call_dumps 2) None w2))))))"

text \<open>The f-strings of lines 25, 26 and 30.\<close>

definition connected_line :: string where
  "connected_line =
     ''Connected to '' @ MONGO_URI @ '' -> DB: '' @ DB_NAME @ '' -> Collection: '' @ COLLECTION_NAME"

definition count_line :: "nat \<Rightarrow> string" where
  "count_line count = ''Document count: '' @ str_nat count"

definition showing_text :: string where
  "showing_text =
     [newline] @ ''Showing up to '' @ str_nat SAMPLE_LIMIT @ '' sample documents:'' @ [newline]"

text \<open>Lines 24--36, the body of the second \<open>try\<close>.\<close>

definition query :: "'doc env \<Rightarrow> world \<Rightarrow> exn option \<times> world" where
  "query env w =
     (case call (Call_count_documents (fst col) (snd col)) (count_fault env) w of
        (Some e, w1) \<Rightarrow> (Some e, w1)
      | (None, w1) \<Rightarrow>
          (let count = count_documents env;
               w2 = print connected_line w1;
               w3 = print (count_line count) w2
           in if count = 0 then (None, print ''Collection is empty.'' w3)
              else
                (let w4 = print showing_text w3
                 in case call (Call_find_limit (fst col) (snd col) SAMPLE_LIMIT) (find_fault env) w4 of
                      (Some e, w5) \<Rightarrow> (Some e, w5)
                    | (None, w5) \<Rightarrow> sample_loop env 1 (find_limit env SAMPLE_LIMIT) w5)))"

text \<open>Line 17, the f-string.\<close>

definition connect_message :: "exn \<Rightarrow> string" where
  "connect_message e = ''ERROR: Unable to connect to MongoDB at '' @ MONGO_URI @ '': '' @ exn_str e"

text \<open>Line 38: \<open>print\<close> joins its two arguments with one space.\<close>

definition query_message :: "exn \<Rightarrow> string" where
  "query_message e = ''ERROR while querying the collection:'' @ '' '' @ exn_str e"

text \<open>
  Lines 11--41. The result is the exit code of the process and the world it leaves. The
  handler of line 16 prints and exits with 2; the handler of line 37 prints and exits with 3,
  and the \<open>finally\<close> of line 40 closes the client on the way out of the second \<open>try\<close>,
  raised or not.
\<close>

definition main :: "'doc env \<Rightarrow> nat \<times> world" where
  "main env =
     (case connect env world0 of
        (Some e, w1) \<Rightarrow>
          (2, eprint (connect_message e) w1)
      | (None, w1) \<Rightarrow>
          (case query env w1 of
             (Some e, w2) \<Rightarrow>
               (3, snd (call Call_close None (eprint (query_message e) w2)))
           | (None, w2) \<Rightarrow> (0, snd (call Call_close None w2))))"

section \<open>Observations on a run\<close>

text \<open>
  Shapes of a trace. \<open>returned\<close>: no call in it raised. \<open>raised_last x\<close>: when
  \<open>x\<close> is an exception, the last call raised it and every call before returned; when
  \<open>x\<close> is \<open>None\<close>, every call returned.
\<close>

definition returned :: "(request \<times> reply) list \<Rightarrow> bool" where
  "returned ts = list_all (\<lambda>x. snd x = Returned) ts"

definition raised_last :: "exn option \<Rightarrow> (request \<times> reply) list \<Rightarrow> bool" where
  "raised_last x ts =
     (case x of None \<Rightarrow> returned ts
      | Some e \<Rightarrow> ts \<noteq> [] \<and> snd (last ts) = Raised e \<and> returned (butlast ts))"

text \<open>
  The calls of the loop (cursor advances and renderings), and the calls of the whole query
  phase: one count, then possibly one find followed by the calls of the loop.
\<close>

definition loop_events :: "(request \<times> reply) list \<Rightarrow> bool" where
  "loop_events ts = list_all (\<lambda>x. fst x = Call_cursor_next \<or> fst x = Call_dumps 2) ts"

definition query_events :: "(request \<times> reply) list \<Rightarrow> bool" where
  "query_events ts =
     (case ts of
        [] \<Rightarrow> False
      | x # rest \<Rightarrow>
          fst x = Call_count_documents DB_NAME COLLECTION_NAME \<and>
          (case rest of
             [] \<Rightarrow> True
           | y # l \<Rightarrow> fst y = Call_find_limit DB_NAME COLLECTION_NAME SAMPLE_LIMIT \<and> loop_events l))"

text \<open>
  A client is opened by each \<open>MongoClient(...)\<close> call that returns, and closed by each
  call of \<open>close\<close>.
\<close>

fun is_open :: "request \<times> reply \<Rightarrow> bool" where
  "is_open (Call_MongoClient u t, Returned) = True"
| "is_open _ = False"

definition opened :: "(request \<times> reply) list \<Rightarrow> nat" where
  "opened tr = length (filter is_open tr)"

definition closed :: "(request \<times> reply) list \<Rightarrow> nat" where
  "closed tr = length (filter (\<lambda>x. fst x = Call_close) tr)"

text \<open>How many calls of one kind a run has issued.\<close>

fun is_count :: "request \<Rightarrow> bool" where
  "is_count (Call_count_documents d c) = True"
| "is_count _ = False"

fun is_find :: "request \<Rightarrow> bool" where
  "is_find (Call_find_limit d c n) = True"
| "is_find _ = False"

definition issued :: "(request \<Rightarrow> bool) \<Rightarrow> world \<Rightarrow> nat" where
  "issued p w = length (filter p (map fst (trace w)))"

text \<open>
  The exception, if any, that the body of the second \<open>try\<close> raises; it does not depend on
  what was printed or called before. \<open>connected_trace\<close> is the trace of a first \<open>try\<close>
  that went through.
\<close>

definition query_error :: "'doc env \<Rightarrow> exn option" where
  "query_error env = fst (query env world0)"

definition connected_trace :: "(request \<times> reply) list" where
  "connected_trace = [(Call_MongoClient MONGO_URI 5000, Returned), (Call_ping, Returned)]"

text \<open>
  What the specification says the sampling prints, in its own words: for each document, in
  sequence order, a 1-based index label, the rendering of the document, and a blank line.
  \<open>r\<close> is the rendering.
\<close>

definition expected_blocks :: "('doc \<Rightarrow> string) \<Rightarrow> nat \<Rightarrow> 'doc list \<Rightarrow> string list" where
  "expected_blocks r i docs =
     concat (map (\<lambda>(k, doc). [''--- Document '' @ str_nat k @ '' ---'', r doc, '''']) (List.enumerate i docs))"

text \<open>
  A printed text is the label of a document block when it reads \<open>--- Document N ---\<close>
  with \<open>N\<close> a non-empty run of decimal digits.
\<close>

definition is_digit :: "char \<Rightarrow> bool" where
  "is_digit c = (c \<in> set ''0123456789'')"

definition is_label :: "string \<Rightarrow> bool" where
  "is_label s =
     (prefix ''--- Document '' s \<and> suffix '' ---'' s \<and> 17 < length s
      \<and> list_all is_digit (take (length s - 17) (drop 13 s)))"

definition document_blocks :: "string list \<Rightarrow> nat" where
  "document_blocks out = length (filter is_label out)"

text \<open>The number of documents handed to \<open>dumps\<close> in a run: the documents retrieved.\<close>

definition dumped :: "world \<Rightarrow> nat" where
  "dumped w = length (filter (\<lambda>x. fst x = Call_dumps 2) (trace w))"

text \<open>
  Sample worlds. \<open>healthy docs\<close>: nothing raises, the collection holds \<open>docs\<close>, and a
  document is rendered between braces. \<open>lost_at_2\<close>: three documents, and the second
  advance of the cursor raises. \<open>ping_refused\<close>: the client is constructed and the ping
  raises.
\<close>

definition server_down :: exn where
  "server_down = Exn ''ServerSelectionTimeoutError'' ''localhost:27017: [Errno 111] Connection refused''"

definition cursor_lost :: exn where
  "cursor_lost = Exn ''CursorNotFound'' ''cursor id 42 not found''"

definition healthy :: "string list \<Rightarrow> string env" where
  "healthy docs =
     \<lparr>connect_fault = None, ping_fault = None, count_fault = None, collection = docs,
      find_fault = None, next_fault = (\<lambda>i. None),
      dumps = (\<lambda>doc indent. Inr (''{'' @ doc @ ''}''))\<rparr>"

definition lost_at_2 :: "string env" where
  "lost_at_2 =
     (healthy [''a'', ''b'', ''c''])\<lparr>next_fault := (\<lambda>i. if i = 2 then Some cursor_lost else None)\<rparr>"

definition ping_refused :: "string env" where
  "ping_refused = (healthy [''a''])\<lparr>ping_fault := Some server_down\<rparr>"

definition twelve :: "string list" where
  "twelve = [''a'', ''b'', ''c'', ''d'', ''e'', ''f'', ''g'', ''h'', ''i'', ''j'', ''k'', ''l'']"

section \<open>Effects of the loop and of the query phase\<close>

lemma call_None [simp]: "call r None w = (None, w\<lparr>trace := trace w @ [(r, Returned)]\<rparr>)"
  by (simp add: call_def)

lemma call_Some [simp]: "call r (Some e) w = (Some e, w\<lparr>trace := trace w @ [(r, Raised e)]\<rparr>)"
  by (simp add: call_def)

lemma stderr_print [simp]: "stderr (print s w) = stderr w"
  by (simp add: print_def)

lemma trace_print [simp]: "trace (print s w) = trace w"
  by (simp add: print_def)

lemma stdout_print [simp]: "stdout (print s w) = stdout w @ [s]"
  by (simp add: print_def)

lemma stdout_eprint [simp]: "stdout (eprint s w) = stdout w"
  by (simp add: eprint_def)

lemma trace_eprint [simp]: "trace (eprint s w) = trace w"
  by (simp add: eprint_def)

lemma stderr_eprint [simp]: "stderr (eprint s w) = stderr w @ [s]"
  by (simp add: eprint_def)

lemma raised_last_Cons:
  "raised_last x ts \<Longrightarrow> raised_last x ((r, Returned) # ts)"
  by (cases x) (auto simp: raised_last_def returned_def)

lemma raised_last_append:
  "returned rs \<Longrightarrow> raised_last x ts \<Longrightarrow> raised_last x (rs @ ts)"
  by (cases x) (auto simp: raised_last_def returned_def butlast_append)

lemma sample_loop_effect:
  "\<exists>out ts. snd (sample_loop env i ds w) = w\<lparr>stdout := stdout w @ out, trace := trace w @ ts\<rparr>
      \<and> loop_events ts \<and> raised_last (fst (sample_loop env i ds w)) ts"
proof (induction ds arbitrary: i w)
  case Nil
  show ?case
  proof (cases "next_fault env i")
    case None
    then have "snd (sample_loop env i [] w) = w\<lparr>stdout := stdout w @ [], trace := trace w @ [(Call_cursor_next, Returned)]\<rparr>
      \<and> loop_events [(Call_cursor_next, Returned)] \<and> raised_last (fst (sample_loop env i [] w)) [(Call_cursor_next, Returned)]"
      by (simp add: loop_events_def raised_last_def returned_def)
    then show ?thesis by blast
  next
    case (Some e)
    then have "snd (sample_loop env i [] w) = w\<lparr>stdout := stdout w @ [], trace := trace w @ [(Call_cursor_next, Raised e)]\<rparr>
      \<and> loop_events [(Call_cursor_next, Raised e)] \<and> raised_last (fst (sample_loop env i [] w)) [(Call_cursor_next, Raised e)]"
      by (simp add: loop_events_def raised_last_def returned_def)
    then show ?thesis by blast
  qed
next
  case (Cons d ds)
  show ?case
  proof (cases "next_fault env i")
    case (Some e)
    then have "snd (sample_loop env i (d # ds) w) = w\<lparr>stdout := stdout w @ [], trace := trace w @ [(Call_cursor_next, Raised e)]\<rparr>
      \<and> loop_events [(Call_cursor_next, Raised e)] \<and> raised_last (fst (sample_loop env i (d # ds) w)) [(Call_cursor_next, Raised e)]"
      by (simp add: loop_events_def raised_last_def returned_def)
    then show ?thesis by blast
  next
    case None
    show ?thesis
    proof (cases "dumps env d 2")
      case (Inl e)
      with None have "snd (sample_loop env i (d # ds) w) = w\<lparr>stdout := stdout w @ [label i], trace := trace w @ [(Call_cursor_next, Returned), (Call_dumps 2, Raised e)]\<rparr>
        \<and> loop_events [(Call_cursor_next, Returned), (Call_dumps 2, Raised e)]
        \<and> raised_last (fst (sample_loop env i (d # ds) w)) [(Call_cursor_next, Returned), (Call_dumps 2, Raised e)]"
        by (simp add: loop_events_def print_def raised_last_def returned_def)
      then show ?thesis by blast
    next
      case (Inr s)
      define w' where "w' = print [] (print s (snd (call (Call_dumps 2) None (print (label i) (snd (call Call_cursor_next None w))))))"
      from None Inr have eq: "sample_loop env i (d # ds) w = sample_loop env (i + 1) ds w'"
        by (simp add: w'_def)
      from Cons.IH [of "i + 1" w'] obtain out ts where
        h: "snd (sample_loop env (i + 1) ds w') = w'\<lparr>stdout := stdout w' @ out, trace := trace w' @ ts\<rparr>"
           "loop_events ts" "raised_last (fst (sample_loop env (i + 1) ds w')) ts"
        by blast
      have w': "w' = w\<lparr>stdout := stdout w @ [label i, s, []], trace := trace w @ [(Call_cursor_next, Returned), (Call_dumps 2, Returned)]\<rparr>"
        by (simp add: w'_def print_def)
      have "snd (sample_loop env i (d # ds) w) = w\<lparr>stdout := stdout w @ ([label i, s, []] @ out),
               trace := trace w @ ([(Call_cursor_next, Returned), (Call_dumps 2, Returned)] @ ts)\<rparr>"
        unfolding eq h(1) by (simp add: w')
      moreover have "loop_events ([(Call_cursor_next, Returned), (Call_dumps 2, Returned)] @ ts)"
        using h(2) by (simp add: loop_events_def)
      moreover have "raised_last (fst (sample_loop env i (d # ds) w)) ([(Call_cursor_next, Returned), (Call_dumps 2, Returned)] @ ts)"
        using h(3) unfolding eq by (intro raised_last_append) (simp_all add: returned_def)
      ultimately show ?thesis by blast
    qed
  qed
qed

lemma query_effect:
  "\<exists>out ts. snd (query env w) = w\<lparr>stdout := stdout w @ out, trace := trace w @ ts\<rparr>
      \<and> query_events ts \<and> raised_last (fst (query env w)) ts"
proof (cases "count_fault env")
  case (Some e)
  then have "snd (query env w) = w\<lparr>stdout := stdout w @ [], trace := trace w @ [(Call_count_documents DB_NAME COLLECTION_NAME, Raised e)]\<rparr>
      \<and> query_events [(Call_count_documents DB_NAME COLLECTION_NAME, Raised e)]
      \<and> raised_last (fst (query env w)) [(Call_count_documents DB_NAME COLLECTION_NAME, Raised e)]"
    by (simp add: query_def col_def query_events_def raised_last_def returned_def)
  then show ?thesis by blast
next
  case None
  define hdr where "hdr = [connected_line, count_line (count_documents env)]"
  define cnt where "cnt = (Call_count_documents DB_NAME COLLECTION_NAME, Returned)"
  show ?thesis
  proof (cases "count_documents env = 0")
    case True
    with None have "snd (query env w) = w\<lparr>stdout := stdout w @ (hdr @ [''Collection is empty.'']), trace := trace w @ [cnt]\<rparr>
      \<and> query_events [cnt] \<and> raised_last (fst (query env w)) [cnt]"
      by (simp add: query_def col_def query_events_def raised_last_def returned_def print_def hdr_def cnt_def)
    then show ?thesis by blast
  next
    case False
    define showing where "showing = showing_text"
    define fnd where "fnd = Call_find_limit DB_NAME COLLECTION_NAME SAMPLE_LIMIT"
    show ?thesis
    proof (cases "find_fault env")
      case (Some e)
      with None False have "snd (query env w) = w\<lparr>stdout := stdout w @ (hdr @ [showing]), trace := trace w @ [cnt, (fnd, Raised e)]\<rparr>
        \<and> query_events [cnt, (fnd, Raised e)] \<and> raised_last (fst (query env w)) [cnt, (fnd, Raised e)]"
        by (simp add: query_def col_def query_events_def raised_last_def returned_def print_def hdr_def cnt_def
              showing_def fnd_def loop_events_def)
      then show ?thesis by blast
    next
      case nf: None
      define w5 where "w5 = w\<lparr>stdout := stdout w @ (hdr @ [showing]), trace := trace w @ [cnt, (fnd, Returned)]\<rparr>"
      from None False nf have eq: "query env w = sample_loop env 1 (find_limit env SAMPLE_LIMIT) w5"
        by (simp add: query_def col_def print_def hdr_def cnt_def showing_def fnd_def w5_def)
      from sample_loop_effect [of env 1 "find_limit env SAMPLE_LIMIT" w5] obtain out ts where
        h: "snd (sample_loop env 1 (find_limit env SAMPLE_LIMIT) w5) = w5\<lparr>stdout := stdout w5 @ out, trace := trace w5 @ ts\<rparr>"
           "loop_events ts" "raised_last (fst (sample_loop env 1 (find_limit env SAMPLE_LIMIT) w5)) ts"
        by blast
      have "snd (query env w) = w\<lparr>stdout := stdout w @ (hdr @ [showing] @ out), trace := trace w @ ([cnt, (fnd, Returned)] @ ts)\<rparr>"
        unfolding eq h(1) by (simp add: w5_def)
      moreover have "query_events ([cnt, (fnd, Returned)] @ ts)"
        using h(2) by (simp add: query_events_def cnt_def fnd_def)
      moreover have "raised_last (fst (query env w)) ([cnt, (fnd, Returned)] @ ts)"
        using h(3) unfolding eq by (intro raised_last_append) (simp_all add: returned_def cnt_def)
      ultimately show ?thesis by blast
    qed
  qed
qed

lemma sample_loop_world:
  "sample_loop env i ds w =
     (fst (sample_loop env i ds world0),
      w\<lparr>stdout := stdout w @ stdout (snd (sample_loop env i ds world0)),
        trace := trace w @ trace (snd (sample_loop env i ds world0))\<rparr>)"
proof (induction ds arbitrary: i w)
  case Nil
  show ?case by (cases "next_fault env i") (simp_all add: world0_def)
next
  case (Cons d ds)
  show ?case
  proof (cases "next_fault env i")
    case (Some e)
    then show ?thesis by (simp add: world0_def)
  next
    case None
    show ?thesis
    proof (cases "dumps env d 2")
      case (Inl e)
      with None show ?thesis by (simp add: world0_def print_def)
    next
      case (Inr s)
      define step where "step = (\<lambda>w. print [] (print s (snd (call (Call_dumps 2) None (print (label i) (snd (call Call_cursor_next None w)))))))"
      from None Inr have eq: "\<And>w. sample_loop env i (d # ds) w = sample_loop env (i + 1) ds (step w)"
        by (simp add: step_def)
      have st: "\<And>w. step w = w\<lparr>stdout := stdout w @ [label i, s, []],
                   trace := trace w @ [(Call_cursor_next, Returned), (Call_dumps 2, Returned)]\<rparr>"
        by (simp add: step_def print_def)
      have L: "sample_loop env (i + 1) ds (step w) =
                 (fst (sample_loop env (i + 1) ds world0),
                  (step w)\<lparr>stdout := stdout (step w) @ stdout (snd (sample_loop env (i + 1) ds world0)),
                    trace := trace (step w) @ trace (snd (sample_loop env (i + 1) ds world0))\<rparr>)"
        by (rule Cons.IH)
      have R: "sample_loop env (i + 1) ds (step world0) =
                 (fst (sample_loop env (i + 1) ds world0),
                  (step world0)\<lparr>stdout := stdout (step world0) @ stdout (snd (sample_loop env (i + 1) ds world0)),
                    trace := trace (step world0) @ trace (snd (sample_loop env (i + 1) ds world0))\<rparr>)"
        by (rule Cons.IH)
      show ?thesis
        unfolding eq L R by (simp add: st world0_def)
    qed
  qed
qed

lemma query_world:
  "query env w =
     (fst (query env world0),
      w\<lparr>stdout := stdout w @ stdout (snd (query env world0)),
        trace := trace w @ trace (snd (query env world0))\<rparr>)"
proof (cases "count_fault env")
  case (Some e)
  then show ?thesis by (simp add: query_def world0_def)
next
  case None
  show ?thesis
  proof (cases "count_documents env = 0")
    case True
    with None show ?thesis by (simp add: query_def world0_def print_def)
  next
    case False
    show ?thesis
    proof (cases "find_fault env")
      case (Some e)
      with None False show ?thesis by (simp add: query_def world0_def print_def)
    next
      case nf: None
      define step where "step = (\<lambda>w. snd (call (Call_find_limit (fst col) (snd col) SAMPLE_LIMIT) None
         (print showing_text
           (print (count_line (count_documents env))
             (print connected_line
               (snd (call (Call_count_documents (fst col) (snd col)) None w)))))))"
      from None False nf have eq: "\<And>w. query env w = sample_loop env 1 (find_limit env SAMPLE_LIMIT) (step w)"
        by (simp add: query_def step_def)
      define run where "run = sample_loop env 1 (find_limit env SAMPLE_LIMIT) world0"
      have L: "sample_loop env 1 (find_limit env SAMPLE_LIMIT) (step w) =
                 (fst run, (step w)\<lparr>stdout := stdout (step w) @ stdout (snd run),
                    trace := trace (step w) @ trace (snd run)\<rparr>)"
        unfolding run_def by (rule sample_loop_world)
      have R: "sample_loop env 1 (find_limit env SAMPLE_LIMIT) (step world0) =
                 (fst run, (step world0)\<lparr>stdout := stdout (step world0) @ stdout (snd run),
                    trace := trace (step world0) @ trace (snd run)\<rparr>)"
        unfolding run_def by (rule sample_loop_world)
      show ?thesis
        unfolding eq L R by (simp add: step_def print_def world0_def)
    qed
  qed
qed

lemma main_connect_raises:
  "connect_fault env = Some e \<Longrightarrow>
   main env = (2, \<lparr>stdout = [], stderr = [connect_message e],
                    trace = [(Call_MongoClient MONGO_URI 5000, Raised e)]\<rparr>)"
  by (simp add: main_def connect_def world0_def eprint_def)

lemma main_ping_raises:
  "connect_fault env = None \<Longrightarrow> ping_fault env = Some e \<Longrightarrow>
   main env = (2, \<lparr>stdout = [], stderr = [connect_message e],
                    trace = [(Call_MongoClient MONGO_URI 5000, Returned), (Call_ping, Raised e)]\<rparr>)"
  by (simp add: main_def connect_def world0_def eprint_def)

lemma main_connected:
  assumes "connect_fault env = None" and "ping_fault env = None"
  shows "main env =
           (case query_error env of None \<Rightarrow> 0 | Some e \<Rightarrow> 3,
            \<lparr>stdout = stdout (snd (query env world0)),
             stderr = (case query_error env of None \<Rightarrow> [] | Some e \<Rightarrow> [query_message e]),
             trace = connected_trace @ trace (snd (query env world0)) @ [(Call_close, Returned)]\<rparr>)"
proof -
  define w1 where "w1 = \<lparr>stdout = [], stderr = [], trace = connected_trace\<rparr>"
  from assms have c: "connect env world0 = (None, w1)"
    by (simp add: connect_def world0_def w1_def connected_trace_def)
  have q: "query env w1 =
             (query_error env,
              w1\<lparr>stdout := stdout w1 @ stdout (snd (query env world0)),
                 trace := trace w1 @ trace (snd (query env world0))\<rparr>)"
    unfolding query_error_def by (rule query_world)
  have "main env =
          (case query env w1 of
             (Some e, w2) \<Rightarrow> (3, snd (call Call_close None (eprint (query_message e) w2)))
           | (None, w2) \<Rightarrow> (0, snd (call Call_close None w2)))"
    unfolding main_def c by (simp split: prod.splits option.splits)
  then show ?thesis
    unfolding q
    by (cases "query_error env") (simp_all add: w1_def eprint_def)
qed

lemma query_shape:
  "query_events (trace (snd (query env world0))) \<and>
   raised_last (query_error env) (trace (snd (query env world0)))"
  using query_effect [of env world0] unfolding query_error_def
  by (auto simp: world0_def)

lemma prefix_contains: "prefix s t \<Longrightarrow> contains s t"
  by (cases t) simp_all

lemma contains_append: "contains s (p @ s @ t)"
  by (induction p) (simp_all add: prefix_contains)

lemma contains_connect_message: "contains ''Unable to connect'' (connect_message e)"
proof -
  have "connect_message e = ''ERROR: '' @ ''Unable to connect'' @ ('' to MongoDB at '' @ MONGO_URI @ '': '' @ exn_str e)"
    by (simp add: connect_message_def)
  then show ?thesis by (simp only: contains_append)
qed

lemma query_count_raises:
  "count_fault env = Some e \<Longrightarrow>
   query env world0 =
     (Some e, \<lparr>stdout = [], stderr = [],
               trace = [(Call_count_documents DB_NAME COLLECTION_NAME, Raised e)]\<rparr>)"
  by (simp add: query_def world0_def col_def)

lemma str_nat_0: "str_nat 0 = ''0''"
  by (simp add: str_nat.simps digit_char_def)

lemma query_empty:
  "count_fault env = None \<Longrightarrow> count_documents env = 0 \<Longrightarrow>
   query env world0 =
     (None,
      \<lparr>stdout = [''Connected to mongodb://localhost:27017 -> DB: clever_record_keeper -> Collection: students'',
                 ''Document count: 0'', ''Collection is empty.''],
       stderr = [],
       trace = [(Call_count_documents DB_NAME COLLECTION_NAME, Returned)]\<rparr>)"
  by (simp add: query_def world0_def col_def print_def str_nat_0 connected_line_def count_line_def
        MONGO_URI_def DB_NAME_def COLLECTION_NAME_def)

lemma is_open_request: "is_open x \<Longrightarrow> \<exists>u t. fst x = Call_MongoClient u t"
  by (cases x rule: is_open.cases) simp_all

lemma loop_events_filter:
  assumes "loop_events ts"
    and "\<And>p. \<not> P (Call_cursor_next, p)" and "\<And>p. \<not> P (Call_dumps 2, p)"
  shows "filter P ts = []"
proof -
  have "\<not> P x" if "x \<in> set ts" for x
  proof -
    from that assms(1) have "fst x = Call_cursor_next \<or> fst x = Call_dumps 2"
      by (simp add: loop_events_def list_all_iff)
    then show ?thesis using assms(2,3) by (cases x) auto
  qed
  then show ?thesis by (simp add: filter_empty_conv)
qed

lemma query_events_counts:
  assumes "query_events ts"
  shows "closed ts = 0" and "opened ts = 0"
    and "length (filter is_count (map fst ts)) = 1"
    and "length (filter is_find (map fst ts)) \<le> 1"
proof -
  from assms obtain x rest where ts: "ts = x # rest"
    and x: "fst x = Call_count_documents DB_NAME COLLECTION_NAME"
    and rest: "rest = [] \<or> (\<exists>y l. rest = y # l
                 \<and> fst y = Call_find_limit DB_NAME COLLECTION_NAME SAMPLE_LIMIT \<and> loop_events l)"
    by (auto simp: query_events_def split: list.splits)
  have nx: "\<not> is_open x" using x is_open_request [of x] by auto
  show "closed ts = 0"
    using rest x by (auto simp: ts closed_def loop_events_filter)
  show "opened ts = 0"
  proof -
    from rest show ?thesis
    proof
      assume "rest = []"
      then show ?thesis using nx by (simp add: ts opened_def)
    next
      assume "\<exists>y l. rest = y # l
                 \<and> fst y = Call_find_limit DB_NAME COLLECTION_NAME SAMPLE_LIMIT \<and> loop_events l"
      then obtain y l where r: "rest = y # l"
        and y: "fst y = Call_find_limit DB_NAME COLLECTION_NAME SAMPLE_LIMIT" and l: "loop_events l"
        by blast
      have "\<not> is_open y" using y is_open_request [of y] by auto
      moreover have "filter is_open l = []" using l by (rule loop_events_filter) simp_all
      ultimately show ?thesis using nx by (simp add: ts r opened_def)
    qed
  qed
  have fl: "filter (\<lambda>x. is_count (fst x)) l = [] \<and> filter (\<lambda>x. is_find (fst x)) l = []"
    if "loop_events l" for l
    using that by (simp add: loop_events_filter)
  show "length (filter is_count (map fst ts)) = 1"
    using rest x fl by (auto simp: ts filter_map comp_def)
  show "length (filter is_find (map fst ts)) \<le> 1"
    using rest x fl by (auto simp: ts filter_map comp_def)
qed


lemma main_lost_at_2:
  "main lost_at_2 =
     (3, \<lparr>stdout =
            [''Connected to mongodb://localhost:27017 -> DB: clever_record_keeper -> Collection: students'',
             ''Document count: 3'',
             [newline] @ ''Showing up to 5 sample documents:'' @ [newline],
             ''--- Document 1 ---'', ''{a}'', ''''],
          stderr = [''ERROR while querying the collection: cursor id 42 not found''],
          trace =
            [(Call_MongoClient ''mongodb://localhost:27017'' 5000, Returned), (Call_ping, Returned),
             (Call_count_documents ''clever_record_keeper'' ''students'', Returned),
             (Call_find_limit ''clever_record_keeper'' ''students'' 5, Returned),
             (Call_cursor_next, Returned), (Call_dumps 2, Returned),
             (Call_cursor_next, Raised cursor_lost), (Call_close, Returned)]\<rparr>)"
  by (simp add: main_def connect_def query_def lost_at_2_def healthy_def world0_def print_def
        eprint_def col_def count_documents_def find_limit_def SAMPLE_LIMIT_def label_def
        str_nat.simps digit_char_def MONGO_URI_def DB_NAME_def COLLECTION_NAME_def
        query_message_def cursor_lost_def connected_line_def count_line_def showing_text_def)

lemma str_nat_digits: "str_nat n \<noteq> [] \<and> list_all is_digit (str_nat n)"
proof (induction n rule: str_nat.induct)
  case (1 n)
  show ?case
  proof (cases "n < 10")
    case True
    then have "''0123456789'' ! n \<in> set ''0123456789''" by (intro nth_mem) simp
    with True show ?thesis
      by (subst (1 2) str_nat.simps) (simp add: digit_char_def is_digit_def)
  next
    case False
    have "n mod 10 < 10" by simp
    then have "''0123456789'' ! (n mod 10) \<in> set ''0123456789''" by (intro nth_mem) simp
    then have "is_digit (digit_char (n mod 10))" by (simp add: digit_char_def is_digit_def)
    with False 1 show ?thesis
      by (subst (1 2) str_nat.simps) simp
  qed
qed

lemma is_label_label: "is_label (label k)"
proof -
  have "str_nat k \<noteq> []" and "list_all is_digit (str_nat k)"
    using str_nat_digits by blast+
  then show ?thesis
    by (simp add: is_label_def label_def suffix_def)
qed

lemma not_label_brace: "\<not> is_label (CHR ''{'' # s)"
  by (simp add: is_label_def)

lemma not_label_empty: "\<not> is_label []"
  by (simp add: is_label_def)

lemma document_blocks_expected:
  assumes "\<forall>d\<in>set ds. \<not> is_label (r d)"
  shows "document_blocks (expected_blocks r i ds) = length ds"
  using assms
proof (induction ds arbitrary: i)
  case Nil
  show ?case by (simp add: document_blocks_def expected_blocks_def enumerate_simps)
next
  case (Cons d ds)
  have "expected_blocks r i (d # ds) = [label i, r d, ''''] @ expected_blocks r (Suc i) ds"
    by (simp add: expected_blocks_def label_def)
  moreover have "document_blocks (expected_blocks r (Suc i) ds) = length ds"
    using Cons by simp
  ultimately show ?case
    using Cons.prems by (simp add: document_blocks_def is_label_label not_label_empty)
qed

lemma sample_loop_ok:
  assumes "\<forall>j\<in>{i..i + length ds}. next_fault env j = None"
    and "\<forall>d\<in>set ds. dumps env d 2 = Inr (r d)"
  shows "fst (sample_loop env i ds w) = None
       \<and> stdout (snd (sample_loop env i ds w)) = stdout w @ expected_blocks r i ds"
  using assms
proof (induction ds arbitrary: i w)
  case Nil
  then show ?case by (simp add: expected_blocks_def)
next
  case (Cons d ds)
  have nf: "next_fault env i = None" using Cons.prems(1) by simp
  have dd: "dumps env d 2 = Inr (r d)" using Cons.prems(2) by simp
  define w' where "w' = print [] (print (r d) (snd (call (Call_dumps 2) None
                           (print (label i) (snd (call Call_cursor_next None w))))))"
  have eq: "sample_loop env i (d # ds) w = sample_loop env (i + 1) ds w'"
    using nf dd by (simp add: w'_def)
  have "\<forall>j\<in>{i + 1..i + 1 + length ds}. next_fault env j = None"
    using Cons.prems(1) by simp
  moreover have "\<forall>d\<in>set ds. dumps env d 2 = Inr (r d)" using Cons.prems(2) by simp
  ultimately have ih: "fst (sample_loop env (i + 1) ds w') = None
       \<and> stdout (snd (sample_loop env (i + 1) ds w')) = stdout w' @ expected_blocks r (i + 1) ds"
    by (rule Cons.IH)
  have "stdout w' = stdout w @ [label i, r d, '''']" by (simp add: w'_def)
  moreover have "expected_blocks r i (d # ds) = [label i, r d, ''''] @ expected_blocks r (i + 1) ds"
    by (simp add: expected_blocks_def label_def)
  ultimately show ?case unfolding eq using ih by simp
qed

lemma str_nat_SAMPLE_LIMIT: "str_nat SAMPLE_LIMIT = ''5''"
  by (simp add: SAMPLE_LIMIT_def str_nat.simps digit_char_def)

lemma connected_line_text:
  "connected_line =
     ''Connected to mongodb://localhost:27017 -> DB: clever_record_keeper -> Collection: students''"
  by (simp add: connected_line_def MONGO_URI_def DB_NAME_def COLLECTION_NAME_def)

lemma showing_text_text:
  "showing_text = [newline] @ ''Showing up to 5 sample documents:'' @ [newline]"
  by (simp add: showing_text_def str_nat_SAMPLE_LIMIT)

lemma not_label_lines:
  "\<not> is_label connected_line" "\<not> is_label (count_line c)"
  "\<not> is_label ''Collection is empty.''" "\<not> is_label showing_text"
  by (simp_all add: is_label_def connected_line_def count_line_def showing_text_def newline_def)

lemma sample_loop_blocks:
  assumes "\<forall>d\<in>set ds. dumps env d 2 = Inr (r d)"
  shows "\<exists>k\<le>length ds.
           stdout (snd (sample_loop env i ds w)) = stdout w @ expected_blocks r i (take k ds)
         \<and> dumped (snd (sample_loop env i ds w)) = dumped w + k
         \<and> (fst (sample_loop env i ds w) = None \<longrightarrow> k = length ds)"
  using assms
proof (induction ds arbitrary: i w)
  case Nil
  show ?case by (cases "next_fault env i") (simp_all add: expected_blocks_def dumped_def)
next
  case (Cons d ds)
  show ?case
  proof (cases "next_fault env i")
    case (Some e)
    then have "0 \<le> length (d # ds)
         \<and> stdout (snd (sample_loop env i (d # ds) w)) = stdout w @ expected_blocks r i (take 0 (d # ds))
         \<and> dumped (snd (sample_loop env i (d # ds) w)) = dumped w + 0
         \<and> (fst (sample_loop env i (d # ds) w) = None \<longrightarrow> 0 = length (d # ds))"
      by (simp add: expected_blocks_def dumped_def)
    then show ?thesis by (rule exI [of _ 0])
  next
    case None
    have dd: "dumps env d 2 = Inr (r d)" using Cons.prems by simp
    define w' where "w' = print [] (print (r d) (snd (call (Call_dumps 2) None
                             (print (label i) (snd (call Call_cursor_next None w))))))"
    have eq: "sample_loop env i (d # ds) w = sample_loop env (i + 1) ds w'"
      using None dd by (simp add: w'_def)
    have "\<forall>d\<in>set ds. dumps env d 2 = Inr (r d)" using Cons.prems by simp
    then have "\<exists>k\<le>length ds.
           stdout (snd (sample_loop env (i + 1) ds w')) = stdout w' @ expected_blocks r (i + 1) (take k ds)
         \<and> dumped (snd (sample_loop env (i + 1) ds w')) = dumped w' + k
         \<and> (fst (sample_loop env (i + 1) ds w') = None \<longrightarrow> k = length ds)"
      by (rule Cons.IH)
    then obtain k where k: "k \<le> length ds"
      "stdout (snd (sample_loop env (i + 1) ds w')) = stdout w' @ expected_blocks r (i + 1) (take k ds)"
      "dumped (snd (sample_loop env (i + 1) ds w')) = dumped w' + k"
      "fst (sample_loop env (i + 1) ds w') = None \<longrightarrow> k = length ds"
      by (elim exE conjE)
    have so: "stdout w' = stdout w @ [label i, r d, []]" by (simp add: w'_def)
    have du: "dumped w' = Suc (dumped w)" by (simp add: w'_def dumped_def)
    have ex: "expected_blocks r i (take (Suc k) (d # ds))
                = [label i, r d, []] @ expected_blocks r (i + 1) (take k ds)"
      by (simp add: expected_blocks_def label_def)
    have "Suc k \<le> length (d # ds)
         \<and> stdout (snd (sample_loop env i (d # ds) w)) = stdout w @ expected_blocks r i (take (Suc k) (d # ds))
         \<and> dumped (snd (sample_loop env i (d # ds) w)) = dumped w + Suc k
         \<and> (fst (sample_loop env i (d # ds) w) = None \<longrightarrow> Suc k = length (d # ds))"
      unfolding eq ex using k by (simp add: so du)
    then show ?thesis by (rule exI [of _ "Suc k"])
  qed
qed

lemma query_blocks:
  assumes "count_fault env = None"
    and "\<forall>d\<in>set (find_limit env SAMPLE_LIMIT). dumps env d 2 = Inr (r d)"
  shows "dumped (snd (query env world0)) \<le> length (find_limit env SAMPLE_LIMIT)
       \<and> stdout (snd (query env world0)) =
           [connected_line, count_line (count_documents env)]
           @ (if count_documents env = 0 then [''Collection is empty.'']
              else showing_text
                   # expected_blocks r 1 (take (dumped (snd (query env world0))) (find_limit env SAMPLE_LIMIT)))
       \<and> (query_error env = None \<longrightarrow>
            dumped (snd (query env world0)) = length (find_limit env SAMPLE_LIMIT))"
proof (cases "count_documents env = 0")
  case True
  then have "find_limit env SAMPLE_LIMIT = []" by (simp add: find_limit_def count_documents_def)
  with True assms(1) show ?thesis
    by (simp add: query_error_def query_def world0_def dumped_def)
next
  case False
  show ?thesis
  proof (cases "find_fault env")
    case (Some e)
    with assms(1) False show ?thesis
      by (simp add: query_error_def query_def world0_def dumped_def expected_blocks_def)
  next
    case None
    define w5 where "w5 =
      \<lparr>stdout = [connected_line, count_line (count_documents env), showing_text], stderr = [],
       trace = [(Call_count_documents DB_NAME COLLECTION_NAME, Returned),
                (Call_find_limit DB_NAME COLLECTION_NAME SAMPLE_LIMIT, Returned)]\<rparr>"
    have eq: "query env world0 = sample_loop env 1 (find_limit env SAMPLE_LIMIT) w5"
      using assms(1) None False
      by (simp add: query_def world0_def print_def col_def w5_def)
    have d0: "dumped w5 = 0" by (simp add: w5_def dumped_def)
    have "\<exists>k\<le>length (find_limit env SAMPLE_LIMIT).
           stdout (snd (sample_loop env 1 (find_limit env SAMPLE_LIMIT) w5))
             = stdout w5 @ expected_blocks r 1 (take k (find_limit env SAMPLE_LIMIT))
         \<and> dumped (snd (sample_loop env 1 (find_limit env SAMPLE_LIMIT) w5)) = dumped w5 + k
         \<and> (fst (sample_loop env 1 (find_limit env SAMPLE_LIMIT) w5) = None
              \<longrightarrow> k = length (find_limit env SAMPLE_LIMIT))"
      using assms(2) by (rule sample_loop_blocks)
    then obtain k where k: "k \<le> length (find_limit env SAMPLE_LIMIT)"
         "stdout (snd (sample_loop env 1 (find_limit env SAMPLE_LIMIT) w5))
            = stdout w5 @ expected_blocks r 1 (take k (find_limit env SAMPLE_LIMIT))"
         "dumped (snd (sample_loop env 1 (find_limit env SAMPLE_LIMIT) w5)) = dumped w5 + k"
         "fst (sample_loop env 1 (find_limit env SAMPLE_LIMIT) w5) = None
            \<longrightarrow> k = length (find_limit env SAMPLE_LIMIT)"
      by (elim exE conjE)
    have dk: "dumped (snd (query env world0)) = k" unfolding eq k(3) d0 by simp
    show ?thesis
      unfolding dk unfolding query_error_def eq using False k(1,2,4) by (simp add: w5_def)
  qed
qed

lemma query_ok:
  assumes "count_fault env = None" and "find_fault env = None"
    and "\<forall>j\<in>{1..Suc (length (find_limit env SAMPLE_LIMIT))}. next_fault env j = None"
    and "\<forall>d\<in>set (find_limit env SAMPLE_LIMIT). dumps env d 2 = Inr (r d)"
  shows "query_error env = None"
proof (cases "count_documents env = 0")
  case True
  with assms(1) show ?thesis by (simp add: query_error_def query_def)
next
  case False
  define w5 where "w5 =
    snd (call (Call_find_limit (fst col) (snd col) SAMPLE_LIMIT) None
      (print showing_text (print (count_line (count_documents env)) (print connected_line
        (snd (call (Call_count_documents (fst col) (snd col)) None world0))))))"
  have eq: "query env world0 = sample_loop env 1 (find_limit env SAMPLE_LIMIT) w5"
    using assms(1,2) False by (simp add: query_def w5_def)
  have "\<forall>j\<in>{1..1 + length (find_limit env SAMPLE_LIMIT)}. next_fault env j = None"
    using assms(3) by simp
  then have "fst (sample_loop env 1 (find_limit env SAMPLE_LIMIT) w5) = None
       \<and> stdout (snd (sample_loop env 1 (find_limit env SAMPLE_LIMIT) w5))
           = stdout w5 @ expected_blocks r 1 (find_limit env SAMPLE_LIMIT)"
    using assms(4) by (rule sample_loop_ok)
  then show ?thesis unfolding query_error_def eq by simp
qed

section \<open>Properties of the script\<close>

text \<open>
  C1. In a run where nothing raises, with \<open>C\<close> the count that the count request returned
  and that the "Document count" line shows, the number of document blocks on standard output
  is \<open>min SAMPLE_LIMIT C\<close>, and the exit code is 0. A document's rendering is a JSON object
  and so begins with an opening brace.
\<close>

theorem blocks_printed_min_limit_count:
  assumes "connect_fault env = None" and "ping_fault env = None"
    and "count_fault env = None" and "find_fault env = None"
    and "\<forall>j\<in>{1..Suc (min SAMPLE_LIMIT (count_documents env))}. next_fault env j = None"
    and "\<forall>d\<in>set (find_limit env SAMPLE_LIMIT). \<exists>s. dumps env d 2 = Inr (CHR ''{'' # s)"
  shows "document_blocks (stdout (snd (main env))) = min SAMPLE_LIMIT (count_documents env)
       \<and> stdout (snd (main env)) ! 1 = ''Document count: '' @ str_nat (count_documents env)
       \<and> fst (main env) = 0"
proof -
  define r where "r = (\<lambda>d. case dumps env d 2 of Inr s \<Rightarrow> s | Inl e \<Rightarrow> [])"
  have len: "length (find_limit env SAMPLE_LIMIT) = min SAMPLE_LIMIT (count_documents env)"
    by (simp add: find_limit_def count_documents_def min.commute)
  have d: "\<forall>d\<in>set (find_limit env SAMPLE_LIMIT). dumps env d 2 = Inr (r d)"
    using assms(6) by (auto simp: r_def)
  have nl: "\<forall>d\<in>set (find_limit env SAMPLE_LIMIT). \<not> is_label (r d)"
  proof
    fix x assume "x \<in> set (find_limit env SAMPLE_LIMIT)"
    with assms(6) obtain s where "dumps env x 2 = Inr (CHR ''{'' # s)" by blast
    then show "\<not> is_label (r x)" by (simp add: r_def not_label_brace)
  qed
  have n: "\<forall>j\<in>{1..Suc (length (find_limit env SAMPLE_LIMIT))}. next_fault env j = None"
    using assms(5) by (simp add: len)
  have ok: "query_error env = None"
    using assms(3,4) n d by (rule query_ok)
  have m: "main env = (0, \<lparr>stdout = stdout (snd (query env world0)), stderr = [],
             trace = connected_trace @ trace (snd (query env world0)) @ [(Call_close, Returned)]\<rparr>)"
    using assms(1,2) ok by (simp add: main_connected)
  have q: "stdout (snd (query env world0)) =
           [connected_line, count_line (count_documents env)]
           @ (if count_documents env = 0 then [''Collection is empty.'']
              else showing_text # expected_blocks r 1 (find_limit env SAMPLE_LIMIT))"
    using query_blocks [OF assms(3) d] ok by simp
  have blocks: "document_blocks (expected_blocks r 1 (find_limit env SAMPLE_LIMIT))
                  = min SAMPLE_LIMIT (count_documents env)"
    using document_blocks_expected [OF nl] len by simp
  have b: "document_blocks (stdout (snd (query env world0))) = min SAMPLE_LIMIT (count_documents env)"
  proof (cases "count_documents env = 0")
    case True
    then show ?thesis unfolding q by (simp add: document_blocks_def not_label_lines)
  next
    case False
    then show ?thesis
      unfolding q using blocks by (simp add: document_blocks_def not_label_lines)
  qed
  have c: "stdout (snd (query env world0)) ! 1 = ''Document count: '' @ str_nat (count_documents env)"
    unfolding q by (simp add: count_line_def)
  show ?thesis unfolding m using b c by simp
qed

theorem blocks_printed_min_limit_count_witness:
  "document_blocks (stdout (snd (main (healthy twelve)))) = 5
   \<and> stdout (snd (main (healthy twelve))) ! 1 = ''Document count: 12''
   \<and> fst (main (healthy twelve)) = 0"
  using blocks_printed_min_limit_count [of "healthy twelve"]
  by (simp add: healthy_def twelve_def find_limit_def count_documents_def SAMPLE_LIMIT_def
        str_nat.simps digit_char_def)

text \<open>
  C2. When the count returns 0, standard output is the connection summary, the line
  "Document count: 0" and the message "Collection is empty."; no find request is issued, the
  cursor is never advanced, and the run ends with exit code 0.
\<close>

theorem empty_collection:
  assumes "connect_fault env = None" and "ping_fault env = None" and "count_fault env = None"
    and "count_documents env = 0"
  shows "stdout (snd (main env)) =
           [''Connected to mongodb://localhost:27017 -> DB: clever_record_keeper -> Collection: students'',
            ''Document count: 0'', ''Collection is empty.'']
       \<and> document_blocks (stdout (snd (main env))) = 0
       \<and> issued is_find (snd (main env)) = 0
       \<and> issued (\<lambda>r. r = Call_cursor_next) (snd (main env)) = 0
       \<and> stderr (snd (main env)) = []
       \<and> fst (main env) = 0"
  using assms
  by (simp add: main_connected query_error_def query_empty issued_def connected_trace_def
        document_blocks_def is_label_def)

theorem empty_collection_witness:
  "stdout (snd (main (healthy []))) =
     [''Connected to mongodb://localhost:27017 -> DB: clever_record_keeper -> Collection: students'',
      ''Document count: 0'', ''Collection is empty.'']
   \<and> issued is_find (snd (main (healthy []))) = 0
   \<and> fst (main (healthy [])) = 0"
  using empty_collection [of "healthy []"]
  by (simp add: healthy_def count_documents_def)

text \<open>
  C3. When constructing the client or the ping raises, the run ends with exit code 2, no
  count and no find request is issued, standard error holds a message that contains
  "Unable to connect", and no line of standard output contains "Document count".
\<close>

theorem connect_failure_exits_2:
  assumes "connect_fault env \<noteq> None \<or> ping_fault env \<noteq> None"
  shows "fst (main env) = 2
       \<and> issued is_count (snd (main env)) = 0
       \<and> issued is_find (snd (main env)) = 0
       \<and> list_ex (contains ''Unable to connect'') (stderr (snd (main env)))
       \<and> list_all (\<lambda>l. \<not> contains ''Document count'' l) (stdout (snd (main env)))"
proof (cases "connect_fault env")
  case (Some e)
  then show ?thesis
    by (simp add: main_connect_raises issued_def contains_connect_message)
next
  case None
  with assms obtain e where "ping_fault env = Some e" by auto
  with None show ?thesis
    by (simp add: main_ping_raises issued_def contains_connect_message)
qed

theorem connect_failure_exits_2_witness:
  "fst (main ((healthy [''a''])\<lparr>ping_fault := Some server_down\<rparr>)) = 2
   \<and> issued is_count (snd (main ((healthy [''a''])\<lparr>ping_fault := Some server_down\<rparr>))) = 0
   \<and> issued is_find (snd (main ((healthy [''a''])\<lparr>ping_fault := Some server_down\<rparr>))) = 0
   \<and> stdout (snd (main ((healthy [''a''])\<lparr>ping_fault := Some server_down\<rparr>))) = []"
  using connect_failure_exits_2 [of "(healthy [''a''])\<lparr>ping_fault := Some server_down\<rparr>"]
  by (simp add: healthy_def main_ping_raises)



text \<open>
  C5. Once the client is constructed and the ping has returned, every run (sampling done,
  collection empty, or the query phase raised) opens one client, calls \<open>close\<close> exactly
  once, and that call is the last thing the run does with the driver.
\<close>

theorem connection_closed_exactly_once:
  assumes "connect_fault env = None" and "ping_fault env = None"
  shows "closed (trace (snd (main env))) = 1
       \<and> opened (trace (snd (main env))) = 1
       \<and> last (trace (snd (main env))) = (Call_close, Returned)"
proof -
  let ?ts = "trace (snd (query env world0))"
  have tr: "trace (snd (main env)) = connected_trace @ ?ts @ [(Call_close, Returned)]"
    using assms by (simp add: main_connected)
  have "query_events ?ts" using query_shape by blast
  then have "closed ?ts = 0" and "opened ?ts = 0" by (rule query_events_counts)+
  then show ?thesis
    unfolding tr by (simp add: closed_def opened_def connected_trace_def)
qed

theorem connection_closed_exactly_once_witness:
  "closed (trace (snd (main lost_at_2))) = 1
   \<and> opened (trace (snd (main lost_at_2))) = 1
   \<and> last (trace (snd (main lost_at_2))) = (Call_close, Returned)
   \<and> fst (main lost_at_2) = 3"
  using connection_closed_exactly_once [of lost_at_2]
  by (simp add: main_lost_at_2) (simp add: lost_at_2_def healthy_def)

text \<open>
  C6. Whenever the count has returned, standard output is the connection summary and the count
  line, followed for a non-empty collection by the "Showing up to 5" text and then, for each
  document retrieved (each one handed to \<open>dumps\<close>), in cursor order, the label
  \<open>--- Document N ---\<close> with \<open>N\<close> counting from 1 in steps of 1, the text that
  \<open>dumps(doc, indent=2)\<close> returns, and an empty line. This holds also when the cursor
  raises part-way; in a run that ends with exit code 0 every document of the cursor has its
  block. The rendering itself is the library's: \<open>r\<close> stands for what \<open>dumps\<close>
  returns at indentation 2.
\<close>

theorem documents_printed_in_order:
  assumes "connect_fault env = None" and "ping_fault env = None" and "count_fault env = None"
    and "\<forall>d\<in>set (find_limit env SAMPLE_LIMIT). dumps env d 2 = Inr (r d)"
  shows "stdout (snd (main env)) =
           [connected_line, count_line (count_documents env)]
           @ (if count_documents env = 0 then [''Collection is empty.'']
              else showing_text
                   # expected_blocks r 1 (take (dumped (snd (main env))) (find_limit env SAMPLE_LIMIT)))
       \<and> dumped (snd (main env)) \<le> length (find_limit env SAMPLE_LIMIT)
       \<and> (fst (main env) = 0 \<longrightarrow> dumped (snd (main env)) = length (find_limit env SAMPLE_LIMIT))"
proof -
  have d: "dumped (snd (main env)) = dumped (snd (query env world0))"
    using assms(1,2) by (simp add: main_connected dumped_def connected_trace_def)
  have s: "stdout (snd (main env)) = stdout (snd (query env world0))"
    using assms(1,2) by (simp add: main_connected)
  have x: "fst (main env) = 0 \<longrightarrow> query_error env = None"
    using assms(1,2) by (cases "query_error env") (simp_all add: main_connected)
  show ?thesis
    unfolding d s using query_blocks [OF assms(3,4)] x by simp
qed

theorem documents_printed_in_order_witness:
  "stdout (snd (main lost_at_2)) =
     [''Connected to mongodb://localhost:27017 -> DB: clever_record_keeper -> Collection: students'',
      ''Document count: 3'',
      [newline] @ ''Showing up to 5 sample documents:'' @ [newline],
      ''--- Document 1 ---'', ''{a}'', '''']
   \<and> dumped (snd (main lost_at_2)) = 1
   \<and> fst (main lost_at_2) = 3"
  using documents_printed_in_order [of lost_at_2 "\<lambda>doc. ''{'' @ doc @ ''}''"]
  by (simp add: main_lost_at_2 dumped_def)



text \<open>
  C8. The claim is that on the exit code 2 path nothing that needs closing has been opened.
  The script at a refused ping: line 13 has constructed the client, line 15 raises, the
  handler of lines 16--18 prints and exits with 2, and \<open>close\<close> is never called on the
  client. The second \<open>try\<close> does close the same client when it fails: at a lost cursor the
  run exits with 3 and has called \<open>close\<close> once.
\<close>

theorem ping_failure_leaves_client_open:
  "main ping_refused =
     (2, \<lparr>stdout = [],
          stderr = [''ERROR: Unable to connect to MongoDB at mongodb://localhost:27017: ''
                      @ ''localhost:27017: [Errno 111] Connection refused''],
          trace = [(Call_MongoClient ''mongodb://localhost:27017'' 5000, Returned),
                   (Call_ping, Raised server_down)]\<rparr>)
   \<and> opened (trace (snd (main ping_refused))) = 1
   \<and> closed (trace (snd (main ping_refused))) = 0
   \<and> fst (main lost_at_2) = 3
   \<and> opened (trace (snd (main lost_at_2))) = 1
   \<and> closed (trace (snd (main lost_at_2))) = 1"
  by (simp add: main_lost_at_2 opened_def closed_def)
     (simp add: ping_refused_def healthy_def main_ping_raises connect_message_def
        MONGO_URI_def server_down_def)

text \<open>
  C10. When the count itself raises, nothing has been printed to standard output: the
  "Connected to" line and the "Document count" line come after the count. The run writes one
  message to standard error and ends with exit code 3.
\<close>

theorem count_failure_leaves_stdout_empty:
  assumes "connect_fault env = None" and "ping_fault env = None" and "count_fault env = Some e"
  shows "stdout (snd (main env)) = []
       \<and> stderr (snd (main env)) = [''ERROR while querying the collection: '' @ exn_str e]
       \<and> fst (main env) = 3"
  using assms
  by (simp add: main_connected query_error_def query_count_raises query_message_def)

theorem count_failure_leaves_stdout_empty_witness:
  "stdout (snd (main ((healthy [''a'', ''b''])\<lparr>count_fault := Some cursor_lost\<rparr>))) = []
   \<and> stderr (snd (main ((healthy [''a'', ''b''])\<lparr>count_fault := Some cursor_lost\<rparr>)))
       = [''ERROR while querying the collection: cursor id 42 not found'']
   \<and> fst (main ((healthy [''a'', ''b''])\<lparr>count_fault := Some cursor_lost\<rparr>)) = 3"
  using count_failure_leaves_stdout_empty
          [of "(healthy [''a'', ''b''])\<lparr>count_fault := Some cursor_lost\<rparr>" cursor_lost]
  by (simp add: healthy_def cursor_lost_def)

end
